theory Spec2Isabelle
  imports Complex_Main
begin

section \<open>The JavaScript primitives the two components use\<close>

text \<open>
  The components under study are the classes \<open>TranscriptionAssembler\<close> and
  \<open>DiarizationAlignment\<close> of \<open>mcp-server/src/whisper/integration.ts\<close>.

  Number model. A JavaScript \<open>number\<close> that carries a time (seconds, offsets, thresholds,
  confidences) is a \<open>real\<close>; a number that is an integer by construction (the result of
  \<open>Math.floor\<close>, of \<open>parseInt\<close> on a run of digits, an array index) is an \<open>int\<close> or a
  \<open>nat\<close>. Arithmetic is exact: \<open>NaN\<close>, the infinities and the rounding of IEEE doubles
  are outside the embedding, so integers are taken below \<open>2^53\<close>, where doubles are exact.
  The one place where the source wraps on purpose, the 32-bit hash, has the wrap-around
  written out.

  String model. A string is a \<open>char list\<close>; a \<open>char\<close> is one code unit with a code below 256.
\<close>

subsection \<open>Characters and decimal numerals\<close>

definition isDigit :: "char \<Rightarrow> bool" where
  \<comment> \<open>the regular-expression class \<open>\d\<close>\<close>
  "isDigit c \<longleftrightarrow> 48 \<le> (of_char c :: nat) \<and> (of_char c :: nat) \<le> 57"

definition digitValue :: "char \<Rightarrow> nat" where
  "digitValue c = (of_char c :: nat) - 48"

definition digitChar :: "nat \<Rightarrow> char" where
  "digitChar d = char_of (48 + d)"

fun natToString :: "nat \<Rightarrow> string" where
  \<comment> \<open>\<open>Number.prototype.toString()\<close> on a non-negative integer\<close>
  "natToString n =
     (if n < 10 then [digitChar n] else natToString (n div 10) @ [digitChar (n mod 10)])"

declare natToString.simps [simp del]

definition toString :: "int \<Rightarrow> string" where
  \<comment> \<open>\<open>Number.prototype.toString()\<close> on an integer\<close>
  "toString i = (if i < 0 then CHR ''-'' # natToString (nat (- i)) else natToString (nat i))"

definition padStart :: "nat \<Rightarrow> char \<Rightarrow> string \<Rightarrow> string" where
  \<comment> \<open>\<open>s.padStart(n, c)\<close> with a one-character filler\<close>
  "padStart n c s = replicate (n - length s) c @ s"

definition parseInt :: "string \<Rightarrow> nat" where
  \<comment> \<open>\<open>parseInt\<close> on a non-empty run of decimal digits, the only argument it gets here\<close>
  "parseInt ds = foldl (\<lambda>acc c. acc * 10 + digitValue c) 0 ds"

definition matchDigits :: "string \<Rightarrow> string option" where
  \<comment> \<open>\<open>label.match(/(\d+)/)\<close>: the leftmost, longest run of digits; \<open>None\<close> is \<open>null\<close>\<close>
  "matchDigits label =
     (case dropWhile (\<lambda>c. \<not> isDigit c) label of
        [] \<Rightarrow> None
      | c # cs \<Rightarrow> Some (takeWhile isDigit (c # cs)))"

subsection \<open>Strings\<close>

definition isWhiteSpace :: "char \<Rightarrow> bool" where
  \<comment> \<open>what \<open>String.prototype.trim\<close> strips, among the code units below 256:
      tab, line feed, vertical tab, form feed, carriage return, space, no-break space\<close>
  "isWhiteSpace c \<longleftrightarrow> (of_char c :: nat) \<in> {9, 10, 11, 12, 13, 32, 160}"

definition trim :: "string \<Rightarrow> string" where
  "trim s = rev (dropWhile isWhiteSpace (rev (dropWhile isWhiteSpace s)))"

fun split :: "char \<Rightarrow> string \<Rightarrow> string list" where
  \<comment> \<open>\<open>s.split(c)\<close>: always at least one piece, \<open>''''.split(c)\<close> is one empty piece\<close>
  "split c [] = [[]]"
| "split c (x # xs) =
     (if x = c then [] # split c xs
      else (case split c xs of [] \<Rightarrow> [[x]] | l # ls \<Rightarrow> (x # l) # ls))"

fun join :: "string \<Rightarrow> string list \<Rightarrow> string" where
  \<comment> \<open>\<open>ls.join(sep)\<close>\<close>
  "join sep [] = []"
| "join sep [l] = l"
| "join sep (l # l' # ls) = l @ sep @ join sep (l' # ls)"

definition endsWith :: "string \<Rightarrow> char \<Rightarrow> bool" where
  "endsWith s c \<longleftrightarrow> s \<noteq> [] \<and> last s = c"

definition startsWith :: "string \<Rightarrow> char \<Rightarrow> bool" where
  "startsWith s c \<longleftrightarrow> s \<noteq> [] \<and> hd s = c"

subsection \<open>The remainder operator and 32-bit integers\<close>

definition jsRem :: "real \<Rightarrow> real \<Rightarrow> real" where
  \<comment> \<open>\<open>x % m\<close>: the quotient is truncated towards zero, the result has the sign of \<open>x\<close>\<close>
  "jsRem x m =
     x - m * of_int (if 0 \<le> x / m then \<lfloor>x / m\<rfloor> else \<lceil>x / m\<rceil>)"

definition toInt32 :: "int \<Rightarrow> int" where
  \<comment> \<open>the conversion the bitwise operators apply: wrap into \<open>[-2^31, 2^31)\<close>\<close>
  "toInt32 x = (x + 2 ^ 31) mod 2 ^ 32 - 2 ^ 31"

section \<open>Data model (\<open>types/index.ts\<close> and the interfaces of \<open>integration.ts\<close>)\<close>

text \<open>
  Field names carry a prefix, since several of the source's interfaces share the names
  \<open>start\<close>, \<open>end\<close>, \<open>text\<close> and \<open>speaker\<close>. An optional field is an \<open>option\<close>.
\<close>

record Segment =
  seg_start :: real
  seg_end :: real
  seg_text :: string

record TranscriptionResult =
  tr_text :: string
  tr_segments :: "Segment list option"
  tr_language :: "string option"
  tr_model_used :: string
  tr_processing_time :: real

record ChunkTranscription =
  chunkIndex :: int
  startOffset :: real
  result :: TranscriptionResult

record AssemblyOptions =
  overlapSeconds :: "real option"
  removeOverlapDuplicates :: "bool option"
  preserveTimestamps :: "bool option"

record DiarizationSegment =
  d_start :: real
  d_end :: real
  d_speaker :: string

record SpeakerSegment =
  sp_text :: string
  sp_speaker :: string
  sp_start :: real
  sp_end :: real
  sp_confidence :: real

record AlignmentOptions =
  overlapThreshold :: "real option"
  mergeThreshold :: "real option"
  confidenceThreshold :: "real option"

definition orDefault :: "'a option \<Rightarrow> 'a \<Rightarrow> 'a" where
  \<comment> \<open>a destructuring default: \<open>const { x = d } = options\<close>\<close>
  "orDefault v d = (case v of None \<Rightarrow> d | Some x \<Rightarrow> x)"

section \<open>The transcription assembler (class \<open>TranscriptionAssembler\<close>)\<close>

definition adjustSegmentTimestamps ::
  "Segment list \<Rightarrow> real \<Rightarrow> bool \<Rightarrow> bool \<Rightarrow> real \<Rightarrow> Segment list" where
  "adjustSegmentTimestamps segments offset isFirstChunk isLastChunk overlap =
     map (\<lambda>segment. \<lparr>seg_start = seg_start segment + offset,
                      seg_end = seg_end segment + offset,
                      seg_text = seg_text segment\<rparr>) segments"

fun findIndex :: "('a \<Rightarrow> bool) \<Rightarrow> 'a list \<Rightarrow> nat option" where
  \<comment> \<open>\<open>xs.findIndex(p)\<close>; \<open>None\<close> is the result \<open>-1\<close>\<close>
  "findIndex p [] = None"
| "findIndex p (x # xs) =
     (if p x then Some 0 else (case findIndex p xs of None \<Rightarrow> None | Some i \<Rightarrow> Some (Suc i)))"

definition removeOverlapSegments :: "Segment list \<Rightarrow> Segment list \<Rightarrow> real \<Rightarrow> Segment list" where
  "removeOverlapSegments newSegments existingSegments overlap =
     (if length existingSegments = 0 then newSegments
      else
        let lastExistingTime = seg_end (last existingSegments);
            overlapCutoffTime = lastExistingTime - overlap
        in (case findIndex (\<lambda>segment. seg_start segment \<ge> overlapCutoffTime) newSegments of
              None \<Rightarrow> []
            | Some firstNonOverlapIndex \<Rightarrow> drop firstNonOverlapIndex newSegments))"

definition removeOverlapText :: "string \<Rightarrow> real \<Rightarrow> string" where
  "removeOverlapText text overlap =
     (let lines = filter (\<lambda>line. trim line \<noteq> []) (split CHR 0x0A text)
      in if length lines \<le> 1 then text
         else
           let linesToRemove = min 2 (nat \<lfloor>real (length lines) * (1 / 10)\<rfloor>)
           in join [CHR 0x0A] (drop linesToRemove lines))"

record AssemblyState =
  assembledText :: string
  assembledSegments :: "Segment list"
  totalProcessingTime :: real

definition assembleChunk ::
  "real \<Rightarrow> bool \<Rightarrow> bool \<Rightarrow> bool \<Rightarrow> bool \<Rightarrow> ChunkTranscription \<Rightarrow> AssemblyState \<Rightarrow> AssemblyState" where
  \<comment> \<open>one iteration of the \<open>for\<close> loop of \<open>assembleTranscriptions\<close>, on the loop's three
      variables; the first three arguments are the destructured options\<close>
  "assembleChunk overlap removeDup preserveTs isFirstChunk isLastChunk chunk st =
     (let total = totalProcessingTime st + tr_processing_time (result chunk);
          segs =
            (if preserveTs then
               (case tr_segments (result chunk) of
                  Some chunkSegments \<Rightarrow>
                    let adjustedSegments =
                          adjustSegmentTimestamps chunkSegments (startOffset chunk)
                            isFirstChunk isLastChunk overlap
                    in if removeDup \<and> \<not> isFirstChunk
                       then assembledSegments st
                              @ removeOverlapSegments adjustedSegments (assembledSegments st) overlap
                       else assembledSegments st @ adjustedSegments
                | None \<Rightarrow> assembledSegments st)
             else assembledSegments st);
          chunkText =
            (if removeDup \<and> \<not> isFirstChunk
             then removeOverlapText (tr_text (result chunk)) overlap
             else tr_text (result chunk));
          spaced =
            (if \<not> isFirstChunk \<and> assembledText st \<noteq> [] \<and> chunkText \<noteq> []
             then (if \<not> endsWith (assembledText st) CHR '' '' \<and> \<not> startsWith chunkText CHR '' ''
                   then assembledText st @ '' '' else assembledText st)
             else assembledText st)
      in \<lparr>assembledText = spaced @ chunkText,
          assembledSegments = segs,
          totalProcessingTime = total\<rparr>)"

fun assembleLoop ::
  "real \<Rightarrow> bool \<Rightarrow> bool \<Rightarrow> nat \<Rightarrow> ChunkTranscription list \<Rightarrow> AssemblyState \<Rightarrow> AssemblyState" where
  \<comment> \<open>the \<open>for\<close> loop from index \<open>i\<close> on, over the chunks still to be visited\<close>
  "assembleLoop overlap removeDup preserveTs i [] st = st"
| "assembleLoop overlap removeDup preserveTs i (chunk # rest) st =
     assembleLoop overlap removeDup preserveTs (Suc i) rest
       (assembleChunk overlap removeDup preserveTs (i = 0) (rest = []) chunk st)"

definition assembleTranscriptions ::
  "ChunkTranscription list \<Rightarrow> AssemblyOptions \<Rightarrow> TranscriptionResult" where
  "assembleTranscriptions chunks options =
     (let overlap = orDefault (overlapSeconds options) 30;
          removeDup = orDefault (removeOverlapDuplicates options) True;
          preserveTs = orDefault (preserveTimestamps options) True
      in case chunks of
           [] \<Rightarrow> \<lparr>tr_text = [], tr_segments = None, tr_language = None,
                  tr_model_used = ''base.en'', tr_processing_time = 0\<rparr>
         | [chunk] \<Rightarrow> result chunk
         | _ \<Rightarrow>
             (let sortedChunks = sort_key chunkIndex chunks;
                  st = assembleLoop overlap removeDup preserveTs 0 sortedChunks
                         \<lparr>assembledText = [], assembledSegments = [], totalProcessingTime = 0\<rparr>
              in \<lparr>tr_text = trim (assembledText st),
                  tr_segments =
                    (if preserveTs \<and> length (assembledSegments st) > 0
                     then Some (assembledSegments st) else None),
                  tr_language = tr_language (result (hd sortedChunks)),
                  tr_model_used = tr_model_used (result (hd sortedChunks)),
                  tr_processing_time = totalProcessingTime st\<rparr>))"

definition formatTimestamp :: "real \<Rightarrow> bool \<Rightarrow> string" where
  \<comment> \<open>\<open>TranscriptionAssembler.formatTimestamp\<close>\<close>
  "formatTimestamp seconds useSRTFormat =
     (let hours = \<lfloor>seconds / 3600\<rfloor>;
          minutes = \<lfloor>jsRem seconds 3600 / 60\<rfloor>;
          secs = \<lfloor>jsRem seconds 60\<rfloor>;
          ms = \<lfloor>jsRem seconds 1 * 1000\<rfloor>;
          separator = (if useSRTFormat then '','' else ''.'')
      in padStart 2 CHR ''0'' (toString hours) @ '':''
         @ padStart 2 CHR ''0'' (toString minutes) @ '':''
         @ padStart 2 CHR ''0'' (toString secs) @ separator
         @ padStart 3 CHR ''0'' (toString ms))"

definition formatAsVTT :: "TranscriptionResult \<Rightarrow> string" where
  \<comment> \<open>the \<open>forEach\<close> is a fold over the segments with their indices\<close>
  "formatAsVTT res =
     (case tr_segments res of
        None \<Rightarrow> ''WEBVTT'' @ [CHR 0x0A, CHR 0x0A] @ tr_text res
      | Some segs \<Rightarrow>
          if length segs = 0 then ''WEBVTT'' @ [CHR 0x0A, CHR 0x0A] @ tr_text res
          else foldl (\<lambda>vtt (index, segment).
                  vtt @ toString (int index + 1) @ [CHR 0x0A]
                    @ formatTimestamp (seg_start segment) False @ '' --> ''
                    @ formatTimestamp (seg_end segment) False @ [CHR 0x0A]
                    @ seg_text segment @ [CHR 0x0A, CHR 0x0A])
                 (''WEBVTT'' @ [CHR 0x0A, CHR 0x0A]) (enumerate 0 segs))"

definition formatAsSRT :: "TranscriptionResult \<Rightarrow> string" where
  "formatAsSRT res =
     (case tr_segments res of
        None \<Rightarrow> tr_text res
      | Some segs \<Rightarrow>
          if length segs = 0 then tr_text res
          else foldl (\<lambda>srt (index, segment).
                  srt @ toString (int index + 1) @ [CHR 0x0A]
                    @ formatTimestamp (seg_start segment) True @ '' --> ''
                    @ formatTimestamp (seg_end segment) True @ [CHR 0x0A]
                    @ seg_text segment @ [CHR 0x0A, CHR 0x0A])
                 [] (enumerate 0 segs))"

section \<open>The diarization aligner (class \<open>DiarizationAlignment\<close>)\<close>

definition calculateOverlap :: "Segment \<Rightarrow> DiarizationSegment \<Rightarrow> real" where
  "calculateOverlap seg1 seg2 =
     (let overlapStart = max (seg_start seg1) (d_start seg2);
          overlapEnd = min (seg_end seg1) (d_end seg2)
      in max 0 (overlapEnd - overlapStart))"

fun hashLoop :: "int \<Rightarrow> string \<Rightarrow> int" where
  \<comment> \<open>the loop of \<open>hashString\<close>: \<open>hash << 5\<close> wraps to 32 bits, the subtraction and the
      addition are exact, \<open>hash & hash\<close> wraps again\<close>
  "hashLoop hash [] = hash"
| "hashLoop hash (c # cs) =
     hashLoop (toInt32 ((toInt32 (hash * 2 ^ 5) - hash) + int (of_char c))) cs"

definition hashString :: "string \<Rightarrow> int" where
  "hashString str = \<bar>hashLoop 0 str\<bar>"

definition normalizeSpeakerLabel :: "string \<Rightarrow> string" where
  "normalizeSpeakerLabel label =
     (case matchDigits label of
        Some m \<Rightarrow>
          (let num = parseInt m
           in ''speaker'' @ padStart 2 CHR ''0'' (toString (int num)))
      | None \<Rightarrow>
          (let hash = hashString label;
               num = (hash mod 10) + 1
           in ''speaker'' @ padStart 2 CHR ''0'' (toString num)))"

fun bestMatchLoop ::
  "Segment \<Rightarrow> DiarizationSegment list \<Rightarrow> DiarizationSegment option \<times> real
     \<Rightarrow> DiarizationSegment option \<times> real" where
  \<comment> \<open>the inner \<open>for\<close> loop, on the pair \<open>(bestMatch, maxOverlap)\<close>\<close>
  "bestMatchLoop transSegment [] (bestMatch, maxOverlap) = (bestMatch, maxOverlap)"
| "bestMatchLoop transSegment (diarSegment # rest) (bestMatch, maxOverlap) =
     (let overlap = calculateOverlap transSegment diarSegment
      in if overlap > maxOverlap
         then bestMatchLoop transSegment rest (Some diarSegment, overlap)
         else bestMatchLoop transSegment rest (bestMatch, maxOverlap))"

definition unknownSegment :: "Segment \<Rightarrow> SpeakerSegment" where
  \<comment> \<open>the object literal of the \<open>else\<close> branch\<close>
  "unknownSegment transSegment =
     \<lparr>sp_text = seg_text transSegment, sp_speaker = ''speaker_unknown'',
      sp_start = seg_start transSegment, sp_end = seg_end transSegment, sp_confidence = 0\<rparr>"

definition alignSegment ::
  "real \<Rightarrow> real \<Rightarrow> DiarizationSegment list \<Rightarrow> Segment \<Rightarrow> SpeakerSegment list" where
  \<comment> \<open>the body of the outer \<open>for\<close> loop: the segments it pushes onto \<open>aligned\<close>\<close>
  "alignSegment overlapThr confidenceThr diarization transSegment =
     (case bestMatchLoop transSegment diarization (None, 0) of
        (Some bestMatch, maxOverlap) \<Rightarrow>
          if maxOverlap > overlapThr then
            (let confidence = maxOverlap / (seg_end transSegment - seg_start transSegment)
             in if confidence \<ge> confidenceThr
                then [\<lparr>sp_text = seg_text transSegment,
                       sp_speaker = normalizeSpeakerLabel (d_speaker bestMatch),
                       sp_start = seg_start transSegment,
                       sp_end = seg_end transSegment,
                       sp_confidence = confidence\<rparr>]
                else [])
          else [unknownSegment transSegment]
      | (None, maxOverlap) \<Rightarrow> [unknownSegment transSegment])"

fun alignLoop ::
  "real \<Rightarrow> real \<Rightarrow> DiarizationSegment list \<Rightarrow> Segment list \<Rightarrow> SpeakerSegment list" where
  \<comment> \<open>the outer \<open>for\<close> loop: the list \<open>aligned\<close> before the merge pass\<close>
  "alignLoop overlapThr confidenceThr diarization [] = []"
| "alignLoop overlapThr confidenceThr diarization (transSegment # rest) =
     alignSegment overlapThr confidenceThr diarization transSegment
       @ alignLoop overlapThr confidenceThr diarization rest"

fun mergeLoop ::
  "real \<Rightarrow> SpeakerSegment list \<Rightarrow> SpeakerSegment list \<times> SpeakerSegment option
     \<Rightarrow> SpeakerSegment list \<times> SpeakerSegment option" where
  \<comment> \<open>the \<open>for\<close> loop of \<open>postProcessAlignment\<close>, on the pair \<open>(processed, current)\<close>\<close>
  "mergeLoop thr [] (processed, current) = (processed, current)"
| "mergeLoop thr (segment # rest) (processed, current) =
     (case current of
        Some cur \<Rightarrow>
          if sp_speaker cur = sp_speaker segment \<and> sp_start segment - sp_end cur < thr
          then mergeLoop thr rest
                 (processed,
                  Some (cur\<lparr>sp_text := sp_text cur @ '' '' @ sp_text segment,
                             sp_end := sp_end segment,
                             sp_confidence := min (sp_confidence cur) (sp_confidence segment)\<rparr>))
          else mergeLoop thr rest (processed @ [cur], Some segment)
      | None \<Rightarrow> mergeLoop thr rest (processed, Some segment))"

definition postProcessAlignment :: "SpeakerSegment list \<Rightarrow> real \<Rightarrow> SpeakerSegment list" where
  "postProcessAlignment segments thr =
     (if length segments = 0 then segments
      else (case mergeLoop thr segments ([], None) of
              (processed, Some cur) \<Rightarrow> processed @ [cur]
            | (processed, None) \<Rightarrow> processed))"

definition transcriptionSegments :: "TranscriptionResult \<Rightarrow> DiarizationSegment list \<Rightarrow> Segment list" where
  \<comment> \<open>the segments to align: the transcription's own, or one pseudo-segment over the
      whole text, ending at \<open>Math.max(20, ...diarization.map(d => d.end))\<close>\<close>
  "transcriptionSegments transcription diarization =
     (case tr_segments transcription of
        Some segs \<Rightarrow>
          if length segs > 0 then segs
          else [\<lparr>seg_start = 0, seg_end = foldl max 20 (map d_end diarization),
                 seg_text = tr_text transcription\<rparr>]
      | None \<Rightarrow>
          [\<lparr>seg_start = 0, seg_end = foldl max 20 (map d_end diarization),
            seg_text = tr_text transcription\<rparr>])"

definition alignedBeforeMerge ::
  "TranscriptionResult \<Rightarrow> DiarizationSegment list \<Rightarrow> AlignmentOptions \<Rightarrow> SpeakerSegment list" where
  \<comment> \<open>the value of \<open>aligned\<close> when the outer loop of \<open>alignTranscriptionWithSpeakers\<close> ends\<close>
  "alignedBeforeMerge transcription diarization options =
     alignLoop (orDefault (overlapThreshold options) (1 / 10))
       (orDefault (confidenceThreshold options) (1 / 10)) diarization
       (transcriptionSegments transcription diarization)"

definition alignTranscriptionWithSpeakers ::
  "TranscriptionResult \<Rightarrow> DiarizationSegment list \<Rightarrow> AlignmentOptions \<Rightarrow> SpeakerSegment list" where
  "alignTranscriptionWithSpeakers transcription diarization options =
     postProcessAlignment (alignedBeforeMerge transcription diarization options)
       (orDefault (mergeThreshold options) 1)"

definition formatTimestamp_Alignment :: "real \<Rightarrow> bool \<Rightarrow> string" where
  \<comment> \<open>\<open>DiarizationAlignment.formatTimestamp\<close>, a second copy of the same method\<close>
  "formatTimestamp_Alignment seconds useSRTFormat =
     (let hours = \<lfloor>seconds / 3600\<rfloor>;
          minutes = \<lfloor>jsRem seconds 3600 / 60\<rfloor>;
          secs = \<lfloor>jsRem seconds 60\<rfloor>;
          ms = \<lfloor>jsRem seconds 1 * 1000\<rfloor>;
          separator = (if useSRTFormat then '','' else ''.'')
      in padStart 2 CHR ''0'' (toString hours) @ '':''
         @ padStart 2 CHR ''0'' (toString minutes) @ '':''
         @ padStart 2 CHR ''0'' (toString secs) @ separator
         @ padStart 3 CHR ''0'' (toString ms))"

definition formatAsVTTWithSpeakers :: "SpeakerSegment list \<Rightarrow> string" where
  "formatAsVTTWithSpeakers segments =
     foldl (\<lambda>vtt (index, segment).
        vtt @ toString (int index + 1) @ [CHR 0x0A]
          @ formatTimestamp_Alignment (sp_start segment) False @ '' --> ''
          @ formatTimestamp_Alignment (sp_end segment) False @ [CHR 0x0A]
          @ ''<v '' @ sp_speaker segment @ ''>'' @ sp_text segment @ ''</v>''
          @ [CHR 0x0A, CHR 0x0A])
       (''WEBVTT'' @ [CHR 0x0A, CHR 0x0A]) (enumerate 0 segments)"

definition formatAsSRTWithSpeakers :: "SpeakerSegment list \<Rightarrow> string" where
  "formatAsSRTWithSpeakers segments =
     foldl (\<lambda>srt (index, segment).
        srt @ toString (int index + 1) @ [CHR 0x0A]
          @ formatTimestamp_Alignment (sp_start segment) True @ '' --> ''
          @ formatTimestamp_Alignment (sp_end segment) True @ [CHR 0x0A]
          @ ''['' @ sp_speaker segment @ '']: '' @ sp_text segment
          @ [CHR 0x0A, CHR 0x0A])
       [] (enumerate 0 segments)"

section \<open>Notions used in the statements\<close>

definition currentList :: "SpeakerSegment option \<Rightarrow> SpeakerSegment list" where
  \<comment> \<open>the accumulator \<open>current\<close> of the merge pass as a list: what the final
      \<open>if (current) processed.push(current)\<close> would append\<close>
  "currentList current = (case current of None \<Rightarrow> [] | Some cur \<Rightarrow> [cur])"

definition closeSameSpeaker :: "real \<Rightarrow> SpeakerSegment \<Rightarrow> SpeakerSegment \<Rightarrow> bool" where
  \<comment> \<open>two segments that the merge pass may not leave next to each other\<close>
  "closeSameSpeaker thr previous next \<longleftrightarrow>
     sp_speaker previous = sp_speaker next \<and> sp_start next - sp_end previous < thr"



subsection \<open>Concrete inputs\<close>

definition oneSpeaker :: "DiarizationSegment list" where
  \<comment> \<open>a single diarization span over the first twenty seconds\<close>
  "oneSpeaker = [\<lparr>d_start = 0, d_end = 20, d_speaker = ''SPEAKER_00''\<rparr>]"

definition nestedTranscription :: TranscriptionResult where
  \<comment> \<open>two segments as the assembler leaves them around a chunk boundary: the second
      starts inside the first and ends before it\<close>
  "nestedTranscription =
     \<lparr>tr_text = ''world again'',
      tr_segments = Some [\<lparr>seg_start = 5, seg_end = 10, seg_text = ''world''\<rparr>,
                          \<lparr>seg_start = 8, seg_end = 19 / 2, seg_text = ''again''\<rparr>],
      tr_language = None, tr_model_used = ''base.en'', tr_processing_time = 0\<rparr>"

definition defaultAlignment :: AlignmentOptions where
  \<comment> \<open>the empty options object \<open>{}\<close>\<close>
  "defaultAlignment =
     \<lparr>overlapThreshold = None, mergeThreshold = None, confidenceThreshold = None\<rparr>"

definition threeSpeakerSegments :: "SpeakerSegment list" where
  "threeSpeakerSegments =
     [\<lparr>sp_text = ''a'', sp_speaker = ''speaker01'', sp_start = 0, sp_end = 2, sp_confidence = 1\<rparr>,
      \<lparr>sp_text = ''b'', sp_speaker = ''speaker01'', sp_start = 5 / 2, sp_end = 4, sp_confidence = 1 / 2\<rparr>,
      \<lparr>sp_text = ''c'', sp_speaker = ''speaker01'', sp_start = 6, sp_end = 7, sp_confidence = 1\<rparr>]"

definition scenarioB_transcription :: TranscriptionResult where
  "scenarioB_transcription =
     \<lparr>tr_text = ''hi there'',
      tr_segments = Some [\<lparr>seg_start = 0, seg_end = 10, seg_text = ''hi there''\<rparr>],
      tr_language = None, tr_model_used = ''base.en'', tr_processing_time = 0\<rparr>"

definition scenarioB_diarization :: "DiarizationSegment list" where
  "scenarioB_diarization =
     [\<lparr>d_start = 0, d_end = 4, d_speaker = ''SPEAKER_00''\<rparr>,
      \<lparr>d_start = 4, d_end = 10, d_speaker = ''SPEAKER_01''\<rparr>]"

definition scenarioB_options :: AlignmentOptions where
  "scenarioB_options =
     \<lparr>overlapThreshold = Some (1 / 10), mergeThreshold = None, confidenceThreshold = None\<rparr>"

definition scenarioC_segment :: Segment where
  "scenarioC_segment = \<lparr>seg_start = 100, seg_end = 110, seg_text = ''text''\<rparr>"

definition scenarioC_transcription :: TranscriptionResult where
  "scenarioC_transcription =
     \<lparr>tr_text = ''text'', tr_segments = Some [scenarioC_segment],
      tr_language = None, tr_model_used = ''base.en'', tr_processing_time = 0\<rparr>"

definition scenarioC_diarization :: "DiarizationSegment list" where
  \<comment> \<open>every span ends before \<open>t = 50\<close>\<close>
  "scenarioC_diarization =
     [\<lparr>d_start = 0, d_end = 20, d_speaker = ''SPEAKER_00''\<rparr>,
      \<lparr>d_start = 20, d_end = 45, d_speaker = ''SPEAKER_01''\<rparr>]"

definition briefSpeaker :: "DiarizationSegment list" where
  \<comment> \<open>one speaker, heard for half a second\<close>
  "briefSpeaker = [\<lparr>d_start = 0, d_end = 1 / 2, d_speaker = ''SPEAKER_00''\<rparr>]"








section \<open>Decimal numerals and the digit match\<close>





















section \<open>The merge pass\<close>

lemma mergeLoop_length:
  "mergeLoop thr segs (processed, current) = (processed', current') \<Longrightarrow>
   length (processed' @ currentList current')
     \<le> length (processed @ currentList current) + length segs"
proof (induction segs arbitrary: processed current)
  case Nil
  then show ?case by simp
next
  case (Cons segment rest)
  show ?case
  proof (cases current)
    case None
    with Cons.prems have "mergeLoop thr rest (processed, Some segment) = (processed', current')"
      by simp
    from Cons.IH [OF this] None show ?thesis by (simp add: currentList_def)
  next
    case (Some cur)
    show ?thesis
    proof (cases "sp_speaker cur = sp_speaker segment \<and> sp_start segment - sp_end cur < thr")
      case True
      with Cons.prems Some obtain m where
        "mergeLoop thr rest (processed, Some m) = (processed', current')"
        by simp
      from Cons.IH [OF this] Some show ?thesis by (simp add: currentList_def)
    next
      case False
      with Cons.prems Some have
        "mergeLoop thr rest (processed @ [cur], Some segment) = (processed', current')"
        by auto
      from Cons.IH [OF this] Some show ?thesis by (simp add: currentList_def)
    qed
  qed
qed

text \<open>
  The invariant of the loop: in \<open>processed\<close> followed by the accumulator, no two
  neighbours are a same-speaker pair closer than the threshold. A merge changes the end,
  the text and the confidence of the accumulator, none of which its left neighbour's
  condition reads; a push happens exactly when the condition fails.
\<close>

lemma mergeLoop_separated:
  "(current = None \<Longrightarrow> processed = []) \<Longrightarrow>
   successively (\<lambda>a b. \<not> closeSameSpeaker thr a b) (processed @ currentList current) \<Longrightarrow>
   mergeLoop thr segs (processed, current) = (processed', current') \<Longrightarrow>
   successively (\<lambda>a b. \<not> closeSameSpeaker thr a b) (processed' @ currentList current')"
proof (induction segs arbitrary: processed current)
  case Nil
  then show ?case by simp
next
  case (Cons segment rest)
  show ?case
  proof (cases current)
    case None
    with Cons.prems have run: "mergeLoop thr rest ([], Some segment) = (processed', current')"
      by simp
    have "successively (\<lambda>a b. \<not> closeSameSpeaker thr a b) ([] @ currentList (Some segment))"
      by (simp add: currentList_def)
    from Cons.IH [OF _ this run] show ?thesis by simp
  next
    case (Some cur)
    let ?merged = "cur\<lparr>sp_text := sp_text cur @ '' '' @ sp_text segment,
                       sp_end := sp_end segment,
                       sp_confidence := min (sp_confidence cur) (sp_confidence segment)\<rparr>"
    from Cons.prems(2) Some have inv:
      "successively (\<lambda>a b. \<not> closeSameSpeaker thr a b) processed"
      "processed = [] \<or> \<not> closeSameSpeaker thr (last processed) cur"
      by (simp_all add: currentList_def successively_append_iff)
    show ?thesis
    proof (cases "sp_speaker cur = sp_speaker segment \<and> sp_start segment - sp_end cur < thr")
      case True
      with Cons.prems(3) Some have run:
        "mergeLoop thr rest (processed, Some ?merged) = (processed', current')"
        by simp
      have "closeSameSpeaker thr p ?merged \<longleftrightarrow> closeSameSpeaker thr p cur" for p
        by (simp add: closeSameSpeaker_def)
      with inv have "successively (\<lambda>a b. \<not> closeSameSpeaker thr a b)
                       (processed @ currentList (Some ?merged))"
        by (auto simp add: currentList_def successively_append_iff)
      from Cons.IH [OF _ this run] show ?thesis by simp
    next
      case False
      with Cons.prems(3) Some have run:
        "mergeLoop thr rest (processed @ [cur], Some segment) = (processed', current')"
        by auto
      from False have "\<not> closeSameSpeaker thr cur segment"
        by (simp add: closeSameSpeaker_def)
      with inv have "successively (\<lambda>a b. \<not> closeSameSpeaker thr a b)
                       ((processed @ [cur]) @ currentList (Some segment))"
        by (auto simp add: currentList_def successively_append_iff)
      from Cons.IH [OF _ this run] show ?thesis by simp
    qed
  qed
qed

lemma postProcessAlignment_length: "length (postProcessAlignment segs thr) \<le> length segs"
proof (cases "mergeLoop thr segs ([], None)")
  case (Pair processed current)
  from mergeLoop_length [OF Pair] show ?thesis
    by (cases current) (simp_all add: postProcessAlignment_def Pair currentList_def)
qed

lemma postProcessAlignment_separated:
  "successively (\<lambda>a b. \<not> closeSameSpeaker thr a b) (postProcessAlignment segs thr)"
proof (cases "mergeLoop thr segs ([], None)")
  case (Pair processed current)
  have "successively (\<lambda>a b. \<not> closeSameSpeaker thr a b) ([] @ currentList None)"
    by (simp add: currentList_def)
  from mergeLoop_separated [OF _ this Pair] show ?thesis
    by (cases current) (auto simp add: postProcessAlignment_def Pair currentList_def)
qed

text \<open>
  Claim C3. For every list of aligned speaker segments and every merge threshold, the
  merge pass returns at most as many segments as it received, and no two consecutive
  segments of its output both carry the same speaker label and lie closer than the
  threshold (\<open>next.start - previous.end < mergeThreshold\<close>).
\<close>

theorem merge_never_grows_and_separates:
  "length (postProcessAlignment segments thr) \<le> length segments \<and>
   (\<forall>i. Suc i < length (postProcessAlignment segments thr) \<longrightarrow>
      \<not> (sp_speaker (postProcessAlignment segments thr ! i)
             = sp_speaker (postProcessAlignment segments thr ! Suc i)
          \<and> sp_start (postProcessAlignment segments thr ! Suc i)
              - sp_end (postProcessAlignment segments thr ! i) < thr))"
  using postProcessAlignment_length [of segments thr]
    postProcessAlignment_separated [of thr segments]
  by (simp add: successively_conv_nth closeSameSpeaker_def)

theorem merge_never_grows_and_separates_witness:
  "length (postProcessAlignment threeSpeakerSegments 1) = 2 \<and>
   Suc 0 < length (postProcessAlignment threeSpeakerSegments 1) \<and>
   \<not> (sp_speaker (postProcessAlignment threeSpeakerSegments 1 ! 0)
          = sp_speaker (postProcessAlignment threeSpeakerSegments 1 ! Suc 0)
       \<and> sp_start (postProcessAlignment threeSpeakerSegments 1 ! Suc 0)
           - sp_end (postProcessAlignment threeSpeakerSegments 1 ! 0) < 1)"
  using merge_never_grows_and_separates [of threeSpeakerSegments 1]
  by (simp add: postProcessAlignment_def threeSpeakerSegments_def)

text \<open>
  Claim C4, as the specification states it, gives the merged segment the later of the
  two end values. The code assigns \<open>current.end = segment.end\<close>: the end of the next
  segment, later or not. The aligner below receives two segments of one speaker, the
  second inside the first (\<open>[5, 10]\<close> then \<open>[8, 9.5]\<close>); they merge, and the merged
  segment ends at 9.5, not at 10.
\<close>

theorem merged_end_is_later_counterexample:
  "alignTranscriptionWithSpeakers nestedTranscription oneSpeaker defaultAlignment =
     [\<lparr>sp_text = ''world again'', sp_speaker = ''speaker00'', sp_start = 5,
       sp_end = 19 / 2, sp_confidence = 1\<rparr>]
   \<and> (19 / 2 :: real) \<noteq> max 10 (19 / 2)"
proof
  show "alignTranscriptionWithSpeakers nestedTranscription oneSpeaker defaultAlignment =
     [\<lparr>sp_text = ''world again'', sp_speaker = ''speaker00'', sp_start = 5,
       sp_end = 19 / 2, sp_confidence = 1\<rparr>]"
    by code_simp
  show "(19 / 2 :: real) \<noteq> max 10 (19 / 2)"
    by simp
qed

text \<open>
  Claim C4, amended. In the merge pass, whenever the accumulator and the next segment
  have the same speaker label and \<open>next.start - current.end < mergeThreshold\<close>, the
  loop goes on with an accumulator that keeps its start and its label, whose text is the
  accumulator's text, one space, the next segment's text, whose end is the next
  segment's end, and whose confidence is the minimum of the two; that end is the later of
  the two ends whenever the next segment does not end before the accumulator.
\<close>

theorem merge_step_fields:
  assumes "sp_speaker cur = sp_speaker segment"
    and "sp_start segment - sp_end cur < thr"
  shows "mergeLoop thr (segment # rest) (processed, Some cur) =
           mergeLoop thr rest
             (processed,
              Some \<lparr>sp_text = sp_text cur @ '' '' @ sp_text segment,
                    sp_speaker = sp_speaker cur,
                    sp_start = sp_start cur,
                    sp_end = sp_end segment,
                    sp_confidence = min (sp_confidence cur) (sp_confidence segment)\<rparr>)
         \<and> (sp_end cur \<le> sp_end segment \<longrightarrow> sp_end segment = max (sp_end cur) (sp_end segment))"
proof -
  have merged: "cur\<lparr>sp_text := sp_text cur @ '' '' @ sp_text segment,
             sp_end := sp_end segment,
             sp_confidence := min (sp_confidence cur) (sp_confidence segment)\<rparr>
        = \<lparr>sp_text = sp_text cur @ '' '' @ sp_text segment,
           sp_speaker = sp_speaker cur,
           sp_start = sp_start cur,
           sp_end = sp_end segment,
           sp_confidence = min (sp_confidence cur) (sp_confidence segment)\<rparr>"
    by (cases cur) simp
  show ?thesis
    unfolding merged [symmetric] using assms by simp
qed

theorem merge_step_fields_witness:
  "sp_speaker (threeSpeakerSegments ! 0) = sp_speaker (threeSpeakerSegments ! 1)
   \<and> sp_start (threeSpeakerSegments ! 1) - sp_end (threeSpeakerSegments ! 0) < 1
   \<and> sp_end (threeSpeakerSegments ! 0) \<le> sp_end (threeSpeakerSegments ! 1)
   \<and> mergeLoop 1 [threeSpeakerSegments ! 1] ([], Some (threeSpeakerSegments ! 0)) =
       ([], Some \<lparr>sp_text = ''a b'', sp_speaker = ''speaker01'', sp_start = 0,
                  sp_end = 4, sp_confidence = 1 / 2\<rparr>)
   \<and> (4 :: real) = max 2 4"
  using merge_step_fields [of "threeSpeakerSegments ! 0" "threeSpeakerSegments ! 1" 1 "[]" "[]"]
  by (simp add: threeSpeakerSegments_def)

section \<open>The assembler\<close>

text \<open>
  Claim C5. For every single-element chunk list and every assembly configuration,
  \<open>assembleTranscriptions\<close> returns that chunk's result unchanged: no translation by
  \<open>startOffset\<close>, no overlap removal and no text heuristic touch a lone chunk.
\<close>

theorem single_chunk_identity: "assembleTranscriptions [chunk] options = result chunk"
  by (simp add: assembleTranscriptions_def)

subsection \<open>Overlap removal on segments\<close>







subsection \<open>Overlap removal on plain text\<close>




section \<open>Timestamps\<close>









lemma first_cue_timestamps:
  "formatAsVTT \<lparr>tr_text = t, tr_segments = Some [segment], tr_language = l,
                 tr_model_used = m, tr_processing_time = p\<rparr> =
     ''WEBVTT'' @ [CHR 0x0A, CHR 0x0A] @ ''1'' @ [CHR 0x0A]
       @ formatTimestamp (seg_start segment) False @ '' --> ''
       @ formatTimestamp (seg_end segment) False @ [CHR 0x0A]
       @ seg_text segment @ [CHR 0x0A, CHR 0x0A]"
  "formatAsSRT \<lparr>tr_text = t, tr_segments = Some [segment], tr_language = l,
                 tr_model_used = m, tr_processing_time = p\<rparr> =
     ''1'' @ [CHR 0x0A]
       @ formatTimestamp (seg_start segment) True @ '' --> ''
       @ formatTimestamp (seg_end segment) True @ [CHR 0x0A]
       @ seg_text segment @ [CHR 0x0A, CHR 0x0A]"
  "formatAsVTTWithSpeakers [speakerSegment] =
     ''WEBVTT'' @ [CHR 0x0A, CHR 0x0A] @ ''1'' @ [CHR 0x0A]
       @ formatTimestamp_Alignment (sp_start speakerSegment) False @ '' --> ''
       @ formatTimestamp_Alignment (sp_end speakerSegment) False @ [CHR 0x0A]
       @ ''<v '' @ sp_speaker speakerSegment @ ''>'' @ sp_text speakerSegment @ ''</v>''
       @ [CHR 0x0A, CHR 0x0A]"
  "formatAsSRTWithSpeakers [speakerSegment] =
     ''1'' @ [CHR 0x0A]
       @ formatTimestamp_Alignment (sp_start speakerSegment) True @ '' --> ''
       @ formatTimestamp_Alignment (sp_end speakerSegment) True @ [CHR 0x0A]
       @ ''['' @ sp_speaker speakerSegment @ '']: '' @ sp_text speakerSegment
       @ [CHR 0x0A, CHR 0x0A]"
proof -
  have one: "toString 1 = ''1''" by code_simp
  show "formatAsVTT \<lparr>tr_text = t, tr_segments = Some [segment], tr_language = l,
                 tr_model_used = m, tr_processing_time = p\<rparr> =
     ''WEBVTT'' @ [CHR 0x0A, CHR 0x0A] @ ''1'' @ [CHR 0x0A]
       @ formatTimestamp (seg_start segment) False @ '' --> ''
       @ formatTimestamp (seg_end segment) False @ [CHR 0x0A]
       @ seg_text segment @ [CHR 0x0A, CHR 0x0A]"
    by (simp add: formatAsVTT_def one)
  show "formatAsSRT \<lparr>tr_text = t, tr_segments = Some [segment], tr_language = l,
                 tr_model_used = m, tr_processing_time = p\<rparr> =
     ''1'' @ [CHR 0x0A]
       @ formatTimestamp (seg_start segment) True @ '' --> ''
       @ formatTimestamp (seg_end segment) True @ [CHR 0x0A]
       @ seg_text segment @ [CHR 0x0A, CHR 0x0A]"
    by (simp add: formatAsSRT_def one)
  show "formatAsVTTWithSpeakers [speakerSegment] =
     ''WEBVTT'' @ [CHR 0x0A, CHR 0x0A] @ ''1'' @ [CHR 0x0A]
       @ formatTimestamp_Alignment (sp_start speakerSegment) False @ '' --> ''
       @ formatTimestamp_Alignment (sp_end speakerSegment) False @ [CHR 0x0A]
       @ ''<v '' @ sp_speaker speakerSegment @ ''>'' @ sp_text speakerSegment @ ''</v>''
       @ [CHR 0x0A, CHR 0x0A]"
    by (simp add: formatAsVTTWithSpeakers_def one)
  show "formatAsSRTWithSpeakers [speakerSegment] =
     ''1'' @ [CHR 0x0A]
       @ formatTimestamp_Alignment (sp_start speakerSegment) True @ '' --> ''
       @ formatTimestamp_Alignment (sp_end speakerSegment) True @ [CHR 0x0A]
       @ ''['' @ sp_speaker speakerSegment @ '']: '' @ sp_text speakerSegment
       @ [CHR 0x0A, CHR 0x0A]"
    by (simp add: formatAsSRTWithSpeakers_def one)
qed




section \<open>The aligner\<close>

subsection \<open>The best match and the segments one iteration pushes\<close>

text \<open>
  A positive intersection is at most the duration of the transcription segment and
  forces that duration to be positive: the quotient \<open>maxOverlap / (end - start)\<close> is
  taken only with a best match, so it never divides by zero.
\<close>

lemma calculateOverlap_bound:
  "0 < calculateOverlap seg d \<Longrightarrow>
     calculateOverlap seg d \<le> seg_end seg - seg_start seg \<and> 0 < seg_end seg - seg_start seg"
  unfolding calculateOverlap_def Let_def by linarith

lemma bestMatchLoop_cases:
  "bestMatchLoop seg diar (bm, mo) = (bm', mo') \<Longrightarrow>
     (bm' = bm \<and> mo' = mo)
     \<or> (\<exists>d\<in>set diar. bm' = Some d \<and> mo' = calculateOverlap seg d \<and> mo < mo')"
proof (induction diar arbitrary: bm mo)
  case Nil
  then show ?case by simp
next
  case (Cons d rest)
  show ?case
  proof (cases "calculateOverlap seg d > mo")
    case True
    with Cons.prems have "bestMatchLoop seg rest (Some d, calculateOverlap seg d) = (bm', mo')"
      by simp
    from Cons.IH [OF this] True show ?thesis by auto
  next
    case False
    with Cons.prems have "bestMatchLoop seg rest (bm, mo) = (bm', mo')"
      by simp
    from Cons.IH [OF this] show ?thesis by auto
  qed
qed

lemma alignSegment_unknown:
  assumes "\<forall>d\<in>set diar. \<not> thr < calculateOverlap seg d"
  shows "alignSegment thr cthr diar seg = [unknownSegment seg]"
proof (cases "bestMatchLoop seg diar (None, 0)")
  case (Pair bm mo)
  from bestMatchLoop_cases [OF Pair] assms have "bm = None \<or> \<not> thr < mo"
    by auto
  with Pair show ?thesis
    by (auto simp add: alignSegment_def split: option.splits)
qed

lemma alignLoop_append:
  "alignLoop thr cthr diar (xs @ ys) = alignLoop thr cthr diar xs @ alignLoop thr cthr diar ys"
  by (induction xs) simp_all

lemma alignSegment_cases:
  assumes "s \<in> set (alignSegment thr cthr diar seg)"
  shows "s = unknownSegment seg
         \<or> (\<exists>d\<in>set diar. 0 < calculateOverlap seg d
              \<and> s = \<lparr>sp_text = seg_text seg,
                      sp_speaker = normalizeSpeakerLabel (d_speaker d),
                      sp_start = seg_start seg, sp_end = seg_end seg,
                      sp_confidence = calculateOverlap seg d / (seg_end seg - seg_start seg)\<rparr>)"
proof (cases "bestMatchLoop seg diar (None, 0)")
  case (Pair bm mo)
  from bestMatchLoop_cases [OF Pair]
  have "bm = None \<or> (\<exists>d\<in>set diar. bm = Some d \<and> mo = calculateOverlap seg d \<and> 0 < mo)"
    by auto
  with assms Pair show ?thesis
    by (auto simp add: alignSegment_def Let_def split: option.splits if_splits)
qed

lemma alignLoop_cases:
  "s \<in> set (alignLoop thr cthr diar segs) \<Longrightarrow>
     \<exists>seg\<in>set segs. s \<in> set (alignSegment thr cthr diar seg)"
proof (induction segs)
  case Nil
  then show ?case by simp
next
  case (Cons seg rest)
  from Cons.prems have "s \<in> set (alignSegment thr cthr diar seg)
      \<or> s \<in> set (alignLoop thr cthr diar rest)"
    by simp
  then show ?case
  proof
    assume "s \<in> set (alignSegment thr cthr diar seg)"
    then show ?thesis by simp
  next
    assume "s \<in> set (alignLoop thr cthr diar rest)"
    from Cons.IH [OF this] show ?thesis by simp
  qed
qed

lemma alignSegment_confidence:
  assumes "s \<in> set (alignSegment thr cthr diar seg)"
  shows "0 \<le> sp_confidence s \<and> sp_confidence s \<le> 1"
  using alignSegment_cases [OF assms]
proof (elim disjE bexE conjE)
  assume "s = unknownSegment seg"
  then show ?thesis by (simp add: unknownSegment_def)
next
  fix d
  assume pos: "0 < calculateOverlap seg d"
    and s: "s = \<lparr>sp_text = seg_text seg,
                  sp_speaker = normalizeSpeakerLabel (d_speaker d),
                  sp_start = seg_start seg, sp_end = seg_end seg,
                  sp_confidence = calculateOverlap seg d / (seg_end seg - seg_start seg)\<rparr>"
  from calculateOverlap_bound [OF pos] pos s show ?thesis by simp
qed

lemma mergeLoop_preserves:
  assumes closed: "\<forall>cur segment. P cur \<longrightarrow> P segment \<longrightarrow> sp_speaker cur = sp_speaker segment \<longrightarrow>
      P (cur\<lparr>sp_text := sp_text cur @ '' '' @ sp_text segment, sp_end := sp_end segment,
              sp_confidence := min (sp_confidence cur) (sp_confidence segment)\<rparr>)"
  shows "\<forall>s\<in>set segs. P s \<Longrightarrow> \<forall>s\<in>set (processed @ currentList current). P s \<Longrightarrow>
    mergeLoop thr segs (processed, current) = (processed', current') \<Longrightarrow>
    \<forall>s\<in>set (processed' @ currentList current'). P s"
proof (induction segs arbitrary: processed current)
  case Nil
  then show ?case by simp
next
  case (Cons segment rest)
  from Cons.prems(1) have rest: "\<forall>s\<in>set rest. P s" and seg: "P segment" by simp_all
  show ?case
  proof (cases current)
    case None
    with Cons.prems(3) have run: "mergeLoop thr rest (processed, Some segment) = (processed', current')"
      by simp
    from Cons.prems(2) seg have "\<forall>s\<in>set (processed @ currentList (Some segment)). P s"
      by (simp add: currentList_def)
    from Cons.IH [OF rest this run] show ?thesis .
  next
    case (Some cur)
    let ?merged = "cur\<lparr>sp_text := sp_text cur @ '' '' @ sp_text segment,
                       sp_end := sp_end segment,
                       sp_confidence := min (sp_confidence cur) (sp_confidence segment)\<rparr>"
    from Cons.prems(2) Some have cur: "P cur" and proc: "\<forall>s\<in>set processed. P s"
      by (simp_all add: currentList_def)
    show ?thesis
    proof (cases "sp_speaker cur = sp_speaker segment \<and> sp_start segment - sp_end cur < thr")
      case True
      with Cons.prems(3) Some have run:
        "mergeLoop thr rest (processed, Some ?merged) = (processed', current')"
        by simp
      from True closed cur seg have "P ?merged" by blast
      with proc have "\<forall>s\<in>set (processed @ currentList (Some ?merged)). P s"
        by (simp add: currentList_def)
      from Cons.IH [OF rest this run] show ?thesis .
    next
      case False
      with Cons.prems(3) Some have run:
        "mergeLoop thr rest (processed @ [cur], Some segment) = (processed', current')"
        by auto
      from proc cur seg have "\<forall>s\<in>set ((processed @ [cur]) @ currentList (Some segment)). P s"
        by (simp add: currentList_def)
      from Cons.IH [OF rest this run] show ?thesis .
    qed
  qed
qed

lemma postProcessAlignment_preserves:
  assumes closed: "\<forall>cur segment. P cur \<longrightarrow> P segment \<longrightarrow> sp_speaker cur = sp_speaker segment \<longrightarrow>
      P (cur\<lparr>sp_text := sp_text cur @ '' '' @ sp_text segment, sp_end := sp_end segment,
              sp_confidence := min (sp_confidence cur) (sp_confidence segment)\<rparr>)"
    and all: "\<forall>s\<in>set segs. P s"
  shows "\<forall>s\<in>set (postProcessAlignment segs thr). P s"
proof (cases "mergeLoop thr segs ([], None)")
  case (Pair processed current)
  have "\<forall>s\<in>set ([] @ currentList None). P s"
    by (simp add: currentList_def)
  from mergeLoop_preserves [OF closed all this Pair]
  have "\<forall>s\<in>set (processed @ currentList current). P s" .
  then show ?thesis
    by (cases current) (simp_all add: postProcessAlignment_def Pair currentList_def)
qed

text \<open>
  Claim C7. Every segment returned by \<open>alignTranscriptionWithSpeakers\<close>, after the
  merge pass, has its confidence in \<open>[0, 1]\<close>. The claim asks for \<open>end \<ge> start\<close> in
  every segment and span, a non-negative overlap threshold and a confidence threshold in
  \<open>[0, 1]\<close>; none of this is needed: a best match exists only with a positive
  intersection, which is at most the duration of the segment and makes that duration
  positive, and the merge pass takes minima.
\<close>

theorem confidence_in_unit_interval:
  "\<forall>s\<in>set (alignTranscriptionWithSpeakers transcription diarization options).
     0 \<le> sp_confidence s \<and> sp_confidence s \<le> 1"
proof -
  let ?P = "\<lambda>s. 0 \<le> sp_confidence s \<and> sp_confidence s \<le> 1"
  have closed: "\<forall>cur segment. ?P cur \<longrightarrow> ?P segment \<longrightarrow> sp_speaker cur = sp_speaker segment \<longrightarrow>
     ?P (cur\<lparr>sp_text := sp_text cur @ '' '' @ sp_text segment,
        sp_end := sp_end segment,
        sp_confidence := min (sp_confidence cur) (sp_confidence segment)\<rparr>)"
    by (simp add: min_def)
  have before: "\<forall>s\<in>set (alignedBeforeMerge transcription diarization options). ?P s"
  proof
    fix s
    assume "s \<in> set (alignedBeforeMerge transcription diarization options)"
    then obtain seg where "s \<in> set (alignSegment (orDefault (overlapThreshold options) (1 / 10))
        (orDefault (confidenceThreshold options) (1 / 10)) diarization seg)"
      unfolding alignedBeforeMerge_def by (blast dest: alignLoop_cases)
    then show "?P s"
      by (rule alignSegment_confidence)
  qed
  from postProcessAlignment_preserves [where P = ?P, OF closed before]
  show ?thesis
    unfolding alignTranscriptionWithSpeakers_def .
qed


theorem confidence_in_unit_interval_witness:
  "alignTranscriptionWithSpeakers scenarioB_transcription scenarioB_diarization scenarioB_options =
     [\<lparr>sp_text = ''hi there'', sp_speaker = ''speaker01'', sp_start = 0, sp_end = 10,
       sp_confidence = 3 / 5\<rparr>]
   \<and> (0 :: real) \<le> 3 / 5 \<and> (3 / 5 :: real) \<le> 1"
proof -
  have run: "alignTranscriptionWithSpeakers scenarioB_transcription scenarioB_diarization
      scenarioB_options =
     [\<lparr>sp_text = ''hi there'', sp_speaker = ''speaker01'', sp_start = 0, sp_end = 10,
       sp_confidence = 3 / 5\<rparr>]"
    by code_simp
  from confidence_in_unit_interval [of scenarioB_transcription scenarioB_diarization scenarioB_options]
  show ?thesis unfolding run by simp
qed

text \<open>
  Claim C1, as the specification states it, fails on the code in two ways. The label of
  an unmatched segment is the literal \<open>speaker_unknown\<close>, not \<open>unknown speaker\<close>:
  scenario C of the specification yields it. And a segment whose best intersection
  exceeds the overlap threshold while its confidence stays below the confidence
  threshold is pushed nowhere: the inner \<open>if (confidence >= confidenceThreshold)\<close> has no
  \<open>else\<close>. A ten-second segment that meets its only speaker for half a second
  (intersection \<open>0.5 > 0.1\<close>, confidence \<open>0.05 < 0.1\<close>) leaves the aligned output empty.
\<close>

theorem unmatched_segment_counterexample:
  "alignedBeforeMerge scenarioC_transcription scenarioC_diarization defaultAlignment =
     [\<lparr>sp_text = ''text'', sp_speaker = ''speaker_unknown'', sp_start = 100, sp_end = 110,
       sp_confidence = 0\<rparr>]
   \<and> ''speaker_unknown'' \<noteq> ''unknown speaker''
   \<and> calculateOverlap (hd (transcriptionSegments scenarioB_transcription briefSpeaker))
         (hd briefSpeaker) = 1 / 2
   \<and> (1 / 2 :: real) > 1 / 10 \<and> (1 / 2 :: real) / (10 - 0) < 1 / 10
   \<and> alignedBeforeMerge scenarioB_transcription briefSpeaker defaultAlignment = []
   \<and> alignTranscriptionWithSpeakers scenarioB_transcription briefSpeaker defaultAlignment = []"
proof (intro conjI)
  show "alignedBeforeMerge scenarioC_transcription scenarioC_diarization defaultAlignment =
     [\<lparr>sp_text = ''text'', sp_speaker = ''speaker_unknown'', sp_start = 100, sp_end = 110,
       sp_confidence = 0\<rparr>]"
    by code_simp
  show "''speaker_unknown'' \<noteq> ''unknown speaker''"
    by simp
  show "calculateOverlap (hd (transcriptionSegments scenarioB_transcription briefSpeaker))
         (hd briefSpeaker) = 1 / 2"
    by code_simp
  show "(1 / 2 :: real) > 1 / 10" by simp
  show "(1 / 2 :: real) / (10 - 0) < 1 / 10" by simp
  show "alignedBeforeMerge scenarioB_transcription briefSpeaker defaultAlignment = []"
    by code_simp
  show "alignTranscriptionWithSpeakers scenarioB_transcription briefSpeaker defaultAlignment = []"
    by code_simp
qed

text \<open>
  Claim C1, amended. For every transcription segment processed by
  \<open>alignTranscriptionWithSpeakers\<close>, if no diarization span has an intersection strictly
  greater than \<open>overlapThreshold\<close>, the pre-merge output contains, at the segment's
  place, exactly one segment for it, with the segment's text, start and end, the label
  \<open>speaker_unknown\<close> and confidence 0. (What happens to a segment whose best
  intersection exceeds the threshold with a confidence below \<open>confidenceThreshold\<close> is
  left open.)
\<close>

theorem unmatched_segment_is_unknown:
  assumes "transcriptionSegments transcription diarization = before @ seg # after"
    and "\<forall>d\<in>set diarization.
           \<not> calculateOverlap seg d > orDefault (overlapThreshold options) (1 / 10)"
  shows "alignedBeforeMerge transcription diarization options =
           alignLoop (orDefault (overlapThreshold options) (1 / 10))
             (orDefault (confidenceThreshold options) (1 / 10)) diarization before
           @ [\<lparr>sp_text = seg_text seg, sp_speaker = ''speaker_unknown'',
                sp_start = seg_start seg, sp_end = seg_end seg, sp_confidence = 0\<rparr>]
           @ alignLoop (orDefault (overlapThreshold options) (1 / 10))
               (orDefault (confidenceThreshold options) (1 / 10)) diarization after"
  using assms(1) alignSegment_unknown [OF assms(2)]
  by (simp add: alignedBeforeMerge_def alignLoop_append unknownSegment_def)

theorem unmatched_segment_is_unknown_witness:
  "transcriptionSegments scenarioC_transcription scenarioC_diarization = [] @ scenarioC_segment # []
   \<and> calculateOverlap scenarioC_segment (scenarioC_diarization ! 0) \<le> 1 / 10
   \<and> calculateOverlap scenarioC_segment (scenarioC_diarization ! 1) \<le> 1 / 10
   \<and> alignedBeforeMerge scenarioC_transcription scenarioC_diarization defaultAlignment =
       [\<lparr>sp_text = ''text'', sp_speaker = ''speaker_unknown'', sp_start = 100, sp_end = 110,
         sp_confidence = 0\<rparr>]"
proof -
  have segs: "transcriptionSegments scenarioC_transcription scenarioC_diarization
                = [] @ scenarioC_segment # []"
    by (simp add: transcriptionSegments_def scenarioC_transcription_def)
  have small: "\<forall>d\<in>set scenarioC_diarization.
          \<not> calculateOverlap scenarioC_segment d > orDefault (overlapThreshold defaultAlignment) (1 / 10)"
    by (simp add: scenarioC_diarization_def scenarioC_segment_def calculateOverlap_def
        defaultAlignment_def orDefault_def)
  have each: "calculateOverlap scenarioC_segment (scenarioC_diarization ! 0) \<le> 1 / 10"
    "calculateOverlap scenarioC_segment (scenarioC_diarization ! 1) \<le> 1 / 10"
    by (simp_all add: scenarioC_diarization_def scenarioC_segment_def calculateOverlap_def)
  from unmatched_segment_is_unknown [OF segs small] segs each show ?thesis
    by (simp add: scenarioC_segment_def)
qed

subsection \<open>Speaker labels\<close>








end
